theory Spec2Isabelle
  imports Main
begin

section \<open>Python values, exceptions and the \<open>or\<close> operator\<close>

text \<open>
  Metadata values are heterogeneous Python values. Fields of the backend's result
  objects that the loader only copies into the metadata are kept as \<open>pyval\<close>;
  fields the loader inspects carry their own type.
\<close>

datatype pyval =
    PyNone
  | PyBool bool
  | PyInt int
  | PyStr string
  | PyList "pyval list"
  | PyDict "(string \<times> pyval) list"

text \<open>
  Every error the loader itself raises is a Python \<open>ValueError\<close>. A failure of the
  backend is an instance of some subclass of \<open>Exception\<close>; only its \<open>str()\<close> is ever
  read, so it is represented by that string. \<open>RuntimeError\<close> is what \<open>asyncio\<close> raises
  when the event loop cannot run a coroutine.
\<close>

datatype exn = ValueError string | Exception string | RuntimeError string

fun str :: "exn \<Rightarrow> string" where
  "str (ValueError msg) = msg"
| "str (Exception msg) = msg"
| "str (RuntimeError msg) = msg"

text \<open>Truthiness of an \<open>Optional[str]\<close>: \<open>None\<close> and the empty string are falsy.\<close>

definition truthy :: "string option \<Rightarrow> bool" where
  "truthy v = (case v of None \<Rightarrow> False | Some s \<Rightarrow> s \<noteq> [])"

text \<open>Python's \<open>a or b\<close> returns the operand itself: \<open>a\<close> when it is truthy, else \<open>b\<close>.\<close>

definition py_or :: "string option \<Rightarrow> string option \<Rightarrow> string option" where
  "py_or a b = (if truthy a then a else b)"

text \<open>Truthiness of an optional list: \<open>None\<close> and the empty list are falsy.\<close>

definition truthy_list :: "'a list option \<Rightarrow> bool" where
  "truthy_list v = (case v of None \<Rightarrow> False | Some xs \<Rightarrow> xs \<noteq> [])"

definition of_optional_str :: "string option \<Rightarrow> pyval" where
  "of_optional_str v = (case v of None \<Rightarrow> PyNone | Some s \<Rightarrow> PyStr s)"

section \<open>Result objects of the backend\<close>

text \<open>
  The classes come from \<open>anyparser_core\<close>; the records list the attributes that
  \<open>anyparser_langchain/__init__.py\<close> reads. \<open>AnyparserPdfResult\<close> extends
  \<open>AnyparserResultBase\<close>, as the tests construct it with the base attributes.
\<close>

record AnyparserImageReference =
  display_name :: pyval
  image_index :: pyval
  page :: pyval

record AnyparserPdfPage =
  page_number :: pyval
  markdown :: "string option"
  "text" :: "string option"
  images :: "pyval list option"

record AnyparserUrl =
  url :: pyval
  title :: pyval
  status_message :: pyval
  status_code :: pyval
  politeness_delay :: pyval
  total_characters :: pyval
  crawled_at :: pyval
  markdown :: "string option"
  "text" :: "string option"
  images :: "AnyparserImageReference list option"

record AnyparserResultBase =
  rid :: pyval
  original_filename :: pyval
  checksum :: pyval
  total_characters :: pyval
  markdown :: "string option"

record AnyparserPdfResult = AnyparserResultBase +
  items :: "AnyparserPdfPage list"

record AnyparserCrawlResult =
  items :: "AnyparserUrl list"

text \<open>
  The argument of \<open>_create_document_from_result\<close>:
  \<open>Union[AnyparserResultBase, AnyparserPdfResult, AnyparserCrawlResult]\<close>.
\<close>

datatype AnyparserResult =
    Base AnyparserResultBase
  | Pdf AnyparserPdfResult
  | Crawl AnyparserCrawlResult

text \<open>
  What \<open>await self.parser.parse(...)\<close> evaluates to: a \<open>str\<close>, a \<open>list\<close> of result
  objects, or a value of any other type, of which only the type's name is observed
  (through \<open>type(result)\<close> in the error messages).
\<close>

datatype parsed = Str string | List "AnyparserResult list" | Other string

fun type_repr :: "parsed \<Rightarrow> string" where
  "type_repr (Str s) = ''<class 'str'>''"
| "type_repr (List xs) = ''<class 'list'>''"
| "type_repr (Other name) = ''<class '' @ [CHR 0x27] @ name @ [CHR 0x27] @ ''>''"

datatype parse_outcome = Returns parsed | Raises string

text \<open>
  The backend's \<open>parse\<close>, as a function of the number of earlier calls and of the
  target it is given, so that a second call may answer differently from the first.
  The world state threaded through a call is the log of the targets passed to it.
\<close>

type_synonym backend = "nat \<Rightarrow> string option \<Rightarrow> parse_outcome"

type_synonym calls = "string option list"

section \<open>The loader\<close>

datatype format_kind = Json | Markdown | Html

fun format_str :: "format_kind \<Rightarrow> string" where
  "format_str Json = ''json''"
| "format_str Markdown = ''markdown''"
| "format_str Html = ''html''"

datatype model_kind = Text | Ocr | Vlm | Lam | Crawler

datatype encoding_kind = Utf8 | Latin1

datatype strategy_kind = LIFO | FIFO

datatype scope_kind = Subtree | Domain

text \<open>The keyword arguments of \<open>AnyparserLoader.__init__\<close>.\<close>

record loader_args =
  file_path :: "string option"
  anyparser_api_key :: "string option"
  anyparser_api_url :: "string option"
  format :: format_kind
  model :: model_kind
  encoding :: encoding_kind
  image :: "bool option"
  table :: "bool option"
  ocr_language :: "pyval option"
  ocr_preset :: "pyval option"
  url :: "string option"
  max_depth :: "int option"
  max_executions :: "int option"
  strategy :: "strategy_kind option"
  traversal_scope :: "scope_kind option"
  kwargs :: "(string \<times> pyval) list"

text \<open>The defaults of the signature.\<close>

definition default_args :: loader_args where
  "default_args =
     \<lparr>loader_args.file_path = None, anyparser_api_key = None, anyparser_api_url = None,
      loader_args.format = Markdown, loader_args.model = Text,
      loader_args.encoding = Utf8, loader_args.image = None, loader_args.table = None,
      loader_args.ocr_language = None, loader_args.ocr_preset = None,
      loader_args.url = None, loader_args.max_depth = None,
      loader_args.max_executions = None, loader_args.strategy = None,
      loader_args.traversal_scope = None, loader_args.kwargs = []\<rparr>"

record AnyparserOption =
  api_key :: "string option"
  api_url :: "string option"
  format :: format_kind
  model :: model_kind
  encoding :: encoding_kind
  image :: "bool option"
  table :: "bool option"
  ocr_language :: "pyval option"
  ocr_preset :: "pyval option"
  url :: "string option"
  max_depth :: "int option"
  max_executions :: "int option"
  strategy :: "strategy_kind option"
  traversal_scope :: "scope_kind option"
  kwargs :: "(string \<times> pyval) list"

record AnyparserLoader =
  file_path :: "string option"
  format :: format_kind
  model :: model_kind
  options :: AnyparserOption

text \<open>
  \<open>__init__\<close>: the two checks on the targets, then the attributes. The target kept in
  \<open>self.file_path\<close> is chosen by the model alone. The object \<open>self.parser\<close> is built
  from \<open>self.options\<close> and used for its \<open>parse\<close> method only, which the \<open>backend\<close>
  argument of the loading functions stands for.
\<close>

definition init :: "loader_args \<Rightarrow> exn + AnyparserLoader" where
  "init a =
     (if loader_args.file_path a = None \<and> loader_args.url a = None then
        Inl (ValueError ''Either file_path or url must be provided'')
      else if loader_args.file_path a \<noteq> None \<and> loader_args.url a \<noteq> None then
        Inl (ValueError ''Only one of file_path or url should be provided'')
      else
        Inr \<lparr>AnyparserLoader.file_path =
               (if loader_args.model a = Crawler then loader_args.url a
                else loader_args.file_path a),
             AnyparserLoader.format = loader_args.format a,
             AnyparserLoader.model = loader_args.model a,
             options =
               \<lparr>api_key = anyparser_api_key a,
                api_url = anyparser_api_url a,
                AnyparserOption.format = loader_args.format a,
                AnyparserOption.model = loader_args.model a,
                AnyparserOption.encoding = loader_args.encoding a,
                AnyparserOption.image = loader_args.image a,
                AnyparserOption.table = loader_args.table a,
                AnyparserOption.ocr_language = loader_args.ocr_language a,
                AnyparserOption.ocr_preset = loader_args.ocr_preset a,
                AnyparserOption.url = loader_args.url a,
                AnyparserOption.max_depth = loader_args.max_depth a,
                AnyparserOption.max_executions = loader_args.max_executions a,
                AnyparserOption.strategy = loader_args.strategy a,
                AnyparserOption.traversal_scope = loader_args.traversal_scope a,
                AnyparserOption.kwargs = loader_args.kwargs a\<rparr>\<rparr>)"

section \<open>Documents\<close>

text \<open>
  A LangChain \<open>Document\<close>. \<open>page_content\<close> holds the Python value handed to the
  constructor, so that a \<open>None\<close> content is expressible and its absence is a theorem.
  The metadata dictionary is the list of its items in the order of the literal.
\<close>

record Document =
  page_content :: "string option"
  metadata :: "(string \<times> pyval) list"

definition create_document_from_url ::
  "AnyparserLoader \<Rightarrow> AnyparserUrl \<Rightarrow> int \<Rightarrow> int \<Rightarrow> Document" where
  "create_document_from_url self url_result page_number' total_pages =
     \<lparr>page_content =
        py_or (py_or (AnyparserUrl.markdown url_result) (AnyparserUrl.text url_result))
          (Some ''''),
      metadata =
        [(''source'', AnyparserUrl.url url_result),
         (''format'', PyStr (format_str (AnyparserLoader.format self))),
         (''page_number'', PyInt page_number'),
         (''total_pages'', PyInt total_pages),
         (''url'', AnyparserUrl.url url_result),
         (''title'', title url_result),
         (''status_message'', status_message url_result),
         (''status_code'', status_code url_result),
         (''politeness_delay'', politeness_delay url_result),
         (''total_characters'', AnyparserUrl.total_characters url_result),
         (''crawled_at'', crawled_at url_result),
         (''images'',
            (if truthy_list (AnyparserUrl.images url_result) then
               PyList (map (\<lambda>img. PyDict [(''name'', display_name img),
                                           (''index'', image_index img),
                                           (''page'', page img)])
                         (the (AnyparserUrl.images url_result)))
             else PyList []))]\<rparr>"

text \<open>The \<open>Document(...)\<close> expression in the body of the PDF loop.\<close>

definition pdf_page_document ::
  "AnyparserLoader \<Rightarrow> AnyparserPdfResult \<Rightarrow> int \<Rightarrow> AnyparserPdfPage \<Rightarrow> Document" where
  "pdf_page_document self result total_pages pg =
     \<lparr>page_content =
        py_or (py_or (AnyparserPdfPage.markdown pg) (AnyparserPdfPage.text pg)) (Some ''''),
      metadata =
        [(''source'', of_optional_str (AnyparserLoader.file_path self)),
         (''format'', PyStr (format_str (AnyparserLoader.format self))),
         (''page_number'', AnyparserPdfPage.page_number pg),
         (''total_pages'', PyInt total_pages),
         (''rid'', rid result),
         (''checksum'', checksum result),
         (''total_characters'', AnyparserResultBase.total_characters result),
         (''original_filename'', original_filename result),
         (''images'',
            (if truthy_list (AnyparserPdfPage.images pg)
             then PyList (the (AnyparserPdfPage.images pg)) else PyList []))]\<rparr>"

text \<open>The \<open>Document(...)\<close> expression of the last branch (basic results).\<close>

definition base_document :: "AnyparserLoader \<Rightarrow> AnyparserResultBase \<Rightarrow> Document" where
  "base_document self result =
     \<lparr>page_content = py_or (AnyparserResultBase.markdown result) (Some ''''),
      metadata =
        [(''source'', of_optional_str (AnyparserLoader.file_path self)),
         (''format'', PyStr (format_str (AnyparserLoader.format self))),
         (''rid'', rid result),
         (''checksum'', checksum result),
         (''total_characters'', AnyparserResultBase.total_characters result),
         (''original_filename'', original_filename result)]\<rparr>"

text \<open>
  \<open>for i, item in enumerate(result.items, 1): documents.append(...)\<close>, once for the
  crawl branch and once for the PDF branch; \<open>i\<close> is the running index and the last
  argument the list \<open>documents\<close> built so far.
\<close>

fun crawl_loop ::
  "AnyparserLoader \<Rightarrow> int \<Rightarrow> int \<Rightarrow> AnyparserUrl list \<Rightarrow> Document list \<Rightarrow> Document list" where
  "crawl_loop self i total_pages [] documents = documents"
| "crawl_loop self i total_pages (item # rest) documents =
     crawl_loop self (i + 1) total_pages rest
       (documents @ [create_document_from_url self item i total_pages])"

fun pdf_loop ::
  "AnyparserLoader \<Rightarrow> AnyparserPdfResult \<Rightarrow> int \<Rightarrow> int \<Rightarrow> AnyparserPdfPage list \<Rightarrow>
     Document list \<Rightarrow> Document list" where
  "pdf_loop self result i total_pages [] documents = documents"
| "pdf_loop self result i total_pages (pg # rest) documents =
     pdf_loop self result (i + 1) total_pages rest
       (documents @ [pdf_page_document self result total_pages pg])"

text \<open>
  \<open>_create_document_from_result\<close>: the \<open>isinstance\<close> chain tests the crawl class first,
  then the PDF class, and treats everything else as a basic result.
\<close>

definition create_document_from_result ::
  "AnyparserLoader \<Rightarrow> AnyparserResult \<Rightarrow> Document list" where
  "create_document_from_result self result =
     (case result of
        Crawl r \<Rightarrow>
          (let total_pages = int (length (AnyparserCrawlResult.items r))
           in crawl_loop self 1 total_pages (AnyparserCrawlResult.items r) [])
      | Pdf r \<Rightarrow>
          (let total_pages = int (length (AnyparserPdfResult.items r))
           in pdf_loop self r 1 total_pages (AnyparserPdfResult.items r) [])
      | Base r \<Rightarrow> [] @ [base_document self r])"

section \<open>Loading\<close>

text \<open>\<open>for item in result: documents.extend(self._create_document_from_result(item))\<close>\<close>

fun extend_loop ::
  "AnyparserLoader \<Rightarrow> AnyparserResult list \<Rightarrow> Document list \<Rightarrow> Document list" where
  "extend_loop self [] documents = documents"
| "extend_loop self (item # rest) documents =
     extend_loop self rest (documents @ create_document_from_result self item)"

text \<open>
  The body of the \<open>try\<close> block of \<open>aload\<close>, given what the awaited \<open>parse\<close> did: every
  \<open>raise\<close> inside the block, and a failure of \<open>parse\<close> itself, is an \<open>Inl\<close>.
\<close>

definition try_body :: "AnyparserLoader \<Rightarrow> parse_outcome \<Rightarrow> exn + Document list" where
  "try_body self outcome =
     (case outcome of
        Raises e \<Rightarrow> Inl (Exception e)
      | Returns result \<Rightarrow>
          (if AnyparserLoader.format self \<in> set [Markdown, Html] then
             (case result of
                Str s \<Rightarrow>
                  Inr [\<lparr>page_content = Some s,
                        metadata =
                          [(''source'', of_optional_str (AnyparserLoader.file_path self)),
                           (''format'', PyStr (format_str (AnyparserLoader.format self)))]\<rparr>]
              | _ \<Rightarrow>
                  Inl (ValueError
                         (''Expected string for '' @ format_str (AnyparserLoader.format self)
                            @ '' format, got: '' @ type_repr result)))
           else
             (case result of
                List xs \<Rightarrow> Inr (extend_loop self xs [])
              | _ \<Rightarrow>
                  Inl (ValueError (''Expected list for JSON format, got: '' @ type_repr result)))))"

text \<open>\<open>except Exception as e: raise ValueError(f"Error parsing document with Anyparser: {str(e)}")\<close>\<close>

definition except_handler :: "exn + 'a \<Rightarrow> exn + 'a" where
  "except_handler r =
     (case r of
        Inl e \<Rightarrow> Inl (ValueError (''Error parsing document with Anyparser: '' @ str e))
      | Inr v \<Rightarrow> Inr v)"

text \<open>
  A coroutine run to completion: given the backend and the log of the calls made so
  far, its result or exception and the log afterwards.
\<close>

type_synonym 'a coroutine = "backend \<Rightarrow> calls \<Rightarrow> (exn + 'a) \<times> calls"

text \<open>
  \<open>aload\<close>: \<open>self.parser.parse(self.file_path)\<close> is awaited once, at the head of the
  \<open>try\<close> block.
\<close>

definition aload :: "AnyparserLoader \<Rightarrow> Document list coroutine" where
  "aload self parse calls =
     (let outcome = parse (length calls) (AnyparserLoader.file_path self);
          calls' = calls @ [AnyparserLoader.file_path self]
      in (except_handler (try_body self outcome), calls'))"

text \<open>
  The event loop \<open>load\<close> finds in the calling thread is an input of the call. A loop
  object is open and not running (\<open>Idle\<close>), already running (the caller is itself
  inside a coroutine of that loop), or closed. The thread either has a current loop
  (one that \<open>asyncio\<close> creates on demand counts as an idle one) or, as after a
  finished \<open>asyncio.run\<close> or in a thread that never set one, it has none; the thread's
  name appears in the error message.
\<close>

datatype loop_state = Idle | Running | Closed

datatype thread_loop = CurrentLoop loop_state | NoCurrentLoop string

text \<open>
  \<open>asyncio.get_event_loop()\<close>: the current loop of the thread, or a \<open>RuntimeError\<close>
  when the thread has none.
\<close>

definition get_event_loop :: "thread_loop \<Rightarrow> exn + loop_state" where
  "get_event_loop env =
     (case env of
        CurrentLoop loop \<Rightarrow> Inr loop
      | NoCurrentLoop thread \<Rightarrow>
          Inl (RuntimeError (''There is no current event loop in thread '' @ [CHR 0x27] @
                 thread @ [CHR 0x27] @ ''.'')))"

text \<open>
  \<open>loop.run_until_complete(coro)\<close>: a closed loop and a loop that is already running
  refuse with a \<open>RuntimeError\<close> and the coroutine is never started; an idle loop runs
  the coroutine until it has completed and returns its result or raises its exception.
\<close>

definition run_until_complete :: "loop_state \<Rightarrow> 'a coroutine \<Rightarrow> 'a coroutine" where
  "run_until_complete loop coro parse calls =
     (case loop of
        Closed \<Rightarrow> (Inl (RuntimeError ''Event loop is closed''), calls)
      | Running \<Rightarrow> (Inl (RuntimeError ''This event loop is already running''), calls)
      | Idle \<Rightarrow> coro parse calls)"

text \<open>
  \<open>load\<close>: \<open>loop = asyncio.get_event_loop()\<close>, then
  \<open>return loop.run_until_complete(self.aload())\<close>. Neither line is inside a \<open>try\<close>
  block.
\<close>

definition load :: "AnyparserLoader \<Rightarrow> thread_loop \<Rightarrow> Document list coroutine" where
  "load self env parse calls =
     (case get_event_loop env of
        Inl e \<Rightarrow> (Inl e, calls)
      | Inr loop \<Rightarrow> run_until_complete loop (aload self) parse calls)"

text \<open>
  The use the example scripts make of the loader: construct it, then load. A failed
  construction ends the script before \<open>aload\<close> is reached.
\<close>

definition construct_and_load :: "loader_args \<Rightarrow> Document list coroutine" where
  "construct_and_load a parse calls =
     (case init a of
        Inl e \<Rightarrow> (Inl e, calls)
      | Inr loader \<Rightarrow> aload loader parse calls)"

section \<open>The specification's reading of the normaliser\<close>

text \<open>
  The definitions of this section follow the words of the specification, not the code;
  the theorems below compare the code with them.

  The number of records an item stands for: 1 for a base result, the page count for a
  PDF result, the page count for a crawl result.
\<close>

fun record_count :: "AnyparserResult \<Rightarrow> nat" where
  "record_count (Base r) = 1"
| "record_count (Pdf r) = length (AnyparserPdfResult.items r)"
| "record_count (Crawl r) = length (AnyparserCrawlResult.items r)"

text \<open>
  The fallback chain: the markdown when it is non-empty, otherwise the text when it is
  present, otherwise the empty string.
\<close>

definition text_or_empty :: "string option \<Rightarrow> string" where
  "text_or_empty tx = (case tx of Some t \<Rightarrow> t | None \<Rightarrow> [])"

definition fallback :: "string option \<Rightarrow> string option \<Rightarrow> string" where
  "fallback md tx =
     (case md of
        Some m \<Rightarrow> (if m \<noteq> [] then m else text_or_empty tx)
      | None \<Rightarrow> text_or_empty tx)"

text \<open>
  The contents the chain prescribes for the records of one item. A base result has no
  \<open>text\<close> attribute, so its text is absent.
\<close>

fun expected_contents :: "AnyparserResult \<Rightarrow> string list" where
  "expected_contents (Base r) = [fallback (AnyparserResultBase.markdown r) None]"
| "expected_contents (Pdf r) =
     map (\<lambda>p. fallback (AnyparserPdfPage.markdown p) (AnyparserPdfPage.text p))
       (AnyparserPdfResult.items r)"
| "expected_contents (Crawl r) =
     map (\<lambda>u. fallback (AnyparserUrl.markdown u) (AnyparserUrl.text u))
       (AnyparserCrawlResult.items r)"

section \<open>Fixtures of the test suite\<close>

text \<open>
  The default objects of \<open>tests/test_loader.py\<close> and the mocked behaviours of
  \<open>parse\<close>: \<open>AsyncMock(return_value=v)\<close>, \<open>AsyncMock(side_effect=Exception(msg))\<close>, and a
  backend that fails on its first call only.
\<close>

definition mock_anyparser_base_result :: AnyparserResultBase where
  "mock_anyparser_base_result =
     \<lparr>rid = PyStr ''test_rid'', original_filename = PyStr ''test.pdf'',
      checksum = PyStr ''test_checksum'', AnyparserResultBase.total_characters = PyInt 100,
      AnyparserResultBase.markdown = Some ''base content''\<rparr>"

definition mock_anyparser_pdf_page_result :: AnyparserPdfPage where
  "mock_anyparser_pdf_page_result =
     \<lparr>page_number = PyInt 1, AnyparserPdfPage.markdown = Some ''pdf page content'',
      AnyparserPdfPage.text = Some ''pdf page content'', AnyparserPdfPage.images = Some []\<rparr>"

definition mock_anyparser_pdf_result :: AnyparserPdfResult where
  "mock_anyparser_pdf_result =
     \<lparr>rid = PyStr ''test_rid'', original_filename = PyStr ''test.pdf'',
      checksum = PyStr ''test_checksum'', AnyparserResultBase.total_characters = PyInt 200,
      AnyparserResultBase.markdown = Some ''pdf result markdown'',
      AnyparserPdfResult.items = []\<rparr>"

definition mock_anyparser_url_result :: AnyparserUrl where
  "mock_anyparser_url_result =
     \<lparr>AnyparserUrl.url = PyStr ''http://example.com/page1'', title = PyStr ''Page 1'',
      status_message = PyStr ''OK'', status_code = PyInt 200, politeness_delay = PyInt 100,
      AnyparserUrl.total_characters = PyInt 100, crawled_at = PyStr ''now'',
      AnyparserUrl.markdown = None, AnyparserUrl.text = Some ''page 1 content'',
      AnyparserUrl.images = Some []\<rparr>"

definition mock_anyparser_crawl_result :: AnyparserCrawlResult where
  "mock_anyparser_crawl_result = \<lparr>AnyparserCrawlResult.items = []\<rparr>"

text \<open>
  A PDF result of two pages whose own page numbers are 7 and 3; the first page has an
  empty markdown, the second neither markdown nor text.
\<close>

definition test_pdf_result :: AnyparserPdfResult where
  "test_pdf_result =
     mock_anyparser_pdf_result
       \<lparr>AnyparserPdfResult.items :=
          [mock_anyparser_pdf_page_result
             \<lparr>page_number := PyInt 7, AnyparserPdfPage.markdown := Some []\<rparr>,
           mock_anyparser_pdf_page_result
             \<lparr>page_number := PyInt 3, AnyparserPdfPage.markdown := None,
              AnyparserPdfPage.text := None\<rparr>]\<rparr>"

text \<open>A crawl result of two pages with distinct URLs.\<close>

definition test_crawl_result :: AnyparserCrawlResult where
  "test_crawl_result =
     mock_anyparser_crawl_result
       \<lparr>AnyparserCrawlResult.items :=
          [mock_anyparser_url_result,
           mock_anyparser_url_result
             \<lparr>AnyparserUrl.url := PyStr ''http://example.com/page2'',
              AnyparserUrl.markdown := Some ''page 2 content''\<rparr>]\<rparr>"

definition test_results :: "AnyparserResult list" where
  "test_results = [Base mock_anyparser_base_result, Pdf test_pdf_result, Crawl test_crawl_result]"

definition test_options :: "format_kind \<Rightarrow> model_kind \<Rightarrow> string option \<Rightarrow> AnyparserOption" where
  "test_options fmt mdl u =
     \<lparr>api_key = None, api_url = None, AnyparserOption.format = fmt,
      AnyparserOption.model = mdl, AnyparserOption.encoding = Utf8,
      AnyparserOption.image = None, AnyparserOption.table = None,
      AnyparserOption.ocr_language = None, AnyparserOption.ocr_preset = None,
      AnyparserOption.url = u, AnyparserOption.max_depth = None,
      AnyparserOption.max_executions = None, AnyparserOption.strategy = None,
      AnyparserOption.traversal_scope = None, AnyparserOption.kwargs = []\<rparr>"

text \<open>\<open>AnyparserLoader(file_path="test.pdf", format=fmt)\<close>\<close>

definition test_pdf_loader :: "format_kind \<Rightarrow> AnyparserLoader" where
  "test_pdf_loader fmt =
     \<lparr>AnyparserLoader.file_path = Some ''test.pdf'', AnyparserLoader.format = fmt,
      AnyparserLoader.model = Text, options = test_options fmt Text None\<rparr>"

text \<open>\<open>AnyparserLoader(url="http://example.com", model="crawler", format="json")\<close>\<close>

definition test_crawler_loader :: AnyparserLoader where
  "test_crawler_loader =
     \<lparr>AnyparserLoader.file_path = Some ''http://example.com'',
      AnyparserLoader.format = Json, AnyparserLoader.model = Crawler,
      options = test_options Json Crawler (Some ''http://example.com'')\<rparr>"

definition return_value :: "parsed \<Rightarrow> backend" where
  "return_value v n target = Returns v"

definition side_effect :: "string \<Rightarrow> backend" where
  "side_effect msg n target = Raises msg"

definition fails_first :: "string \<Rightarrow> parsed \<Rightarrow> backend" where
  "fails_first msg v n target = (if n = 0 then Raises msg else Returns v)"

section \<open>The loops as list functions\<close>

lemma pdf_loop_eq:
  "pdf_loop self r i n xs docs = docs @ map (pdf_page_document self r n) xs"
  by (induction xs arbitrary: i docs) simp_all

lemma extend_loop_eq:
  "extend_loop self xs docs = docs @ concat (map (create_document_from_result self) xs)"
  by (induction xs arbitrary: docs) simp_all

lemma upto_shift: "[i..i + int (Suc n) - 1] = i # [i + 1..i + 1 + int n - 1]"
  by (simp add: upto_rec1)

text \<open>The running index of \<open>enumerate(items, 1)\<close> pairs the pages with \<open>i, i + 1, ...\<close>.\<close>

lemma crawl_loop_eq:
  "crawl_loop self i n xs docs =
     docs @ map (\<lambda>(k, item). create_document_from_url self item k n)
              (zip [i..i + int (length xs) - 1] xs)"
proof (induction xs arbitrary: i docs)
  case Nil
  then show ?case by simp
next
  case (Cons x xs)
  have "[i..i + int (length (x # xs)) - 1] = i # [i + 1..i + 1 + int (length xs) - 1]"
    using upto_shift [of i "length xs"] by simp
  then show ?case
    using Cons.IH [of "i + 1"] by simp
qed

lemma create_crawl:
  "create_document_from_result self (Crawl r) =
     map (\<lambda>(k, item). create_document_from_url self item k
                          (int (length (AnyparserCrawlResult.items r))))
       (zip [1..int (length (AnyparserCrawlResult.items r))] (AnyparserCrawlResult.items r))"
  by (simp add: create_document_from_result_def crawl_loop_eq)

lemma create_pdf:
  "create_document_from_result self (Pdf r) =
     map (pdf_page_document self r (int (length (AnyparserPdfResult.items r))))
       (AnyparserPdfResult.items r)"
  by (simp add: create_document_from_result_def pdf_loop_eq)

lemma create_base:
  "create_document_from_result self (Base r) = [base_document self r]"
  by (simp add: create_document_from_result_def)

lemma length_create: "length (create_document_from_result self item) = record_count item"
  by (cases item) (simp_all add: create_crawl create_pdf create_base)

lemma length_concat_create:
  "length (concat (map (create_document_from_result self) xs)) = sum_list (map record_count xs)"
  by (induction xs) (simp_all add: length_create)

lemma map_zip_snd:
  "length ks = length xs \<Longrightarrow> map (\<lambda>(k, x). f x) (zip ks xs) = map f xs"
  by (induction ks xs rule: list_induct2) simp_all

lemma map_zip_fst:
  "length ks = length xs \<Longrightarrow> map (\<lambda>(k, x). f k) (zip ks xs) = map f ks"
  by (induction ks xs rule: list_induct2) simp_all

section \<open>The parts of \<open>aload\<close>\<close>

lemma get_event_loop_idle: "get_event_loop env = Inr Idle \<longleftrightarrow> env = CurrentLoop Idle"
  by (cases env) (simp_all add: get_event_loop_def)

lemma load_idle:
  "get_event_loop env = Inr Idle \<Longrightarrow> load self env parse calls = aload self parse calls"
  by (simp add: load_def run_until_complete_def)

lemma load_refused:
  "get_event_loop env \<noteq> Inr Idle \<Longrightarrow>
   \<exists>m. load self env parse calls = (Inl (RuntimeError m), calls)"
proof (cases env)
  case (CurrentLoop loop)
  assume "get_event_loop env \<noteq> Inr Idle"
  with CurrentLoop show ?thesis
    by (cases loop) (simp_all add: load_def get_event_loop_def run_until_complete_def)
next
  case (NoCurrentLoop thread)
  then show ?thesis by (simp add: load_def get_event_loop_def)
qed

lemma fst_aload:
  "fst (aload self parse calls) =
     except_handler (try_body self (parse (length calls) (AnyparserLoader.file_path self)))"
  by (simp add: aload_def Let_def)

lemma snd_aload: "snd (aload self parse calls) = calls @ [AnyparserLoader.file_path self]"
  by (simp add: aload_def Let_def)

lemma try_body_json_list:
  "AnyparserLoader.format self = Json \<Longrightarrow>
   try_body self (Returns (List xs)) = Inr (concat (map (create_document_from_result self) xs))"
  by (simp add: try_body_def extend_loop_eq)

lemma try_body_json_other:
  "AnyparserLoader.format self = Json \<Longrightarrow> \<forall>xs. result \<noteq> List xs \<Longrightarrow>
   try_body self (Returns result) =
     Inl (ValueError (''Expected list for JSON format, got: '' @ type_repr result))"
  by (cases result) (simp_all add: try_body_def)

lemma try_body_text_str:
  "AnyparserLoader.format self = Markdown \<or> AnyparserLoader.format self = Html \<Longrightarrow>
   try_body self (Returns (Str s)) =
     Inr [\<lparr>page_content = Some s,
           metadata = [(''source'', of_optional_str (AnyparserLoader.file_path self)),
                       (''format'', PyStr (format_str (AnyparserLoader.format self)))]\<rparr>]"
  by (auto simp add: try_body_def)

lemma try_body_text_other:
  "AnyparserLoader.format self = Markdown \<or> AnyparserLoader.format self = Html \<Longrightarrow>
   \<forall>s. result \<noteq> Str s \<Longrightarrow>
   try_body self (Returns result) =
     Inl (ValueError (''Expected string for '' @ format_str (AnyparserLoader.format self)
                        @ '' format, got: '' @ type_repr result))"
  by (cases result) (auto simp add: try_body_def)

section \<open>Contents and metadata of the records\<close>

lemma py_or_chain: "py_or (py_or md tx) (Some []) = Some (fallback md tx)"
  by (auto simp add: py_or_def truthy_def fallback_def text_or_empty_def split: option.splits)

lemma py_or_base: "py_or md (Some []) = Some (fallback md None)"
  by (auto simp add: py_or_def truthy_def fallback_def text_or_empty_def split: option.splits)

lemma content_url:
  "page_content (create_document_from_url self u k n) =
     Some (fallback (AnyparserUrl.markdown u) (AnyparserUrl.text u))"
  by (simp add: create_document_from_url_def py_or_chain)

lemma content_pdf_page:
  "page_content (pdf_page_document self r n p) =
     Some (fallback (AnyparserPdfPage.markdown p) (AnyparserPdfPage.text p))"
  by (simp add: pdf_page_document_def py_or_chain)

lemma content_base:
  "page_content (base_document self r) = Some (fallback (AnyparserResultBase.markdown r) None)"
  by (simp add: base_document_def py_or_base)

lemma contents_create:
  "map page_content (create_document_from_result self item) = map Some (expected_contents item)"
proof (cases item)
  case (Base r)
  then show ?thesis by (simp add: create_base content_base)
next
  case (Pdf r)
  then show ?thesis by (simp add: create_pdf content_pdf_page comp_def)
next
  case (Crawl r)
  have "map (page_content \<circ> (\<lambda>(k, u). create_document_from_url self u k
               (int (length (AnyparserCrawlResult.items r)))))
          (zip [1..int (length (AnyparserCrawlResult.items r))] (AnyparserCrawlResult.items r))
        = map (\<lambda>u. Some (fallback (AnyparserUrl.markdown u) (AnyparserUrl.text u)))
            (AnyparserCrawlResult.items r)"
    using map_zip_snd [of "[1..int (length (AnyparserCrawlResult.items r))]"
        "AnyparserCrawlResult.items r"
        "\<lambda>u. Some (fallback (AnyparserUrl.markdown u) (AnyparserUrl.text u))"]
    by (simp add: comp_def case_prod_unfold content_url)
  with Crawl show ?thesis by (simp add: create_crawl comp_def)
qed

lemma meta_url:
  "map_of (metadata (create_document_from_url self u k n)) ''source'' = Some (AnyparserUrl.url u)"
  "map_of (metadata (create_document_from_url self u k n)) ''url'' = Some (AnyparserUrl.url u)"
  "map_of (metadata (create_document_from_url self u k n)) ''page_number'' = Some (PyInt k)"
  "map_of (metadata (create_document_from_url self u k n)) ''total_pages'' = Some (PyInt n)"
  by (simp_all add: create_document_from_url_def)

lemma meta_pdf_page:
  "map_of (metadata (pdf_page_document self r n p)) ''source'' =
     Some (of_optional_str (AnyparserLoader.file_path self))"
  "map_of (metadata (pdf_page_document self r n p)) ''page_number'' =
     Some (AnyparserPdfPage.page_number p)"
  "map_of (metadata (pdf_page_document self r n p)) ''total_pages'' = Some (PyInt n)"
  by (simp_all add: pdf_page_document_def)

lemma meta_base:
  "map_of (metadata (base_document self r)) ''source'' =
     Some (of_optional_str (AnyparserLoader.file_path self))"
  by (simp add: base_document_def)

lemma crawl_lookup_page:
  "map (\<lambda>d. map_of (metadata d) key) (create_document_from_result self (Crawl r)) =
     map (\<lambda>(k, u). map_of (metadata (create_document_from_url self u k
                        (int (length (AnyparserCrawlResult.items r))))) key)
       (zip [1..int (length (AnyparserCrawlResult.items r))] (AnyparserCrawlResult.items r))"
  by (simp add: create_crawl comp_def case_prod_unfold)

lemma pdf_lookup_page:
  "map (\<lambda>d. map_of (metadata d) key) (create_document_from_result self (Pdf r)) =
     map (\<lambda>p. map_of (metadata (pdf_page_document self r
                   (int (length (AnyparserPdfResult.items r))) p)) key)
       (AnyparserPdfResult.items r)"
  by (simp add: create_pdf comp_def)

text \<open>
  The fixtures are what \<open>__init__\<close> builds from the keyword arguments of the tests.
\<close>

lemma init_test_pdf_loader:
  "init (default_args\<lparr>loader_args.file_path := Some ''test.pdf'', loader_args.format := fmt\<rparr>) =
     Inr (test_pdf_loader fmt)"
  by (simp add: init_def default_args_def test_pdf_loader_def test_options_def)

lemma init_test_crawler_loader:
  "init (default_args\<lparr>loader_args.url := Some ''http://example.com'',
                       loader_args.model := Crawler, loader_args.format := Json\<rparr>) =
     Inr test_crawler_loader"
  by (simp add: init_def default_args_def test_crawler_loader_def test_options_def)

text \<open>
  When the supplied target is the one the model asks for, it is the loader's target.
\<close>

lemma init_target_matching:
  "init a = Inr self \<Longrightarrow>
   (loader_args.model a = Crawler \<longrightarrow> loader_args.url a \<noteq> None) \<Longrightarrow>
   (loader_args.model a \<noteq> Crawler \<longrightarrow> loader_args.file_path a \<noteq> None) \<Longrightarrow>
   AnyparserLoader.file_path self \<noteq> None \<and>
   AnyparserLoader.file_path self =
     (if loader_args.model a = Crawler then loader_args.url a else loader_args.file_path a)"
  by (auto simp add: init_def split: if_splits)

section \<open>The claims\<close>

text \<open>
  C1. A load with format json. When what the backend returned is not a list, the call
  fails with the \<open>ValueError\<close> that states the expected and the actual type (inside
  the wrapper of the \<open>except\<close> clause). When it is a list, the call returns the
  concatenation, in input order, of the records of each item, and their number is the
  sum over the items of 1 for a base result, the page count for a PDF result and the
  page count for a crawl result. \<open>load\<close> gives the same when the thread's event loop is
  idle, so that the loop runs the coroutine.
\<close>

theorem json_load_normalises:
  assumes "AnyparserLoader.format self = Json"
    and "parse (length calls) (AnyparserLoader.file_path self) = Returns result"
  shows "((\<forall>xs. result \<noteq> List xs) \<longrightarrow>
            fst (aload self parse calls) =
              Inl (ValueError (''Error parsing document with Anyparser: '' @
                     ''Expected list for JSON format, got: '' @ type_repr result)) \<and>
            (get_event_loop env = Inr Idle \<longrightarrow>
               fst (load self env parse calls) = fst (aload self parse calls))) \<and>
         (\<forall>xs. result = List xs \<longrightarrow>
            fst (aload self parse calls) =
              Inr (concat (map (create_document_from_result self) xs)) \<and>
            (get_event_loop env = Inr Idle \<longrightarrow>
               fst (load self env parse calls) = fst (aload self parse calls)) \<and>
            length (concat (map (create_document_from_result self) xs)) =
              sum_list (map record_count xs))"
  using assms
  by (simp add: fst_aload load_idle try_body_json_list try_body_json_other
        except_handler_def length_concat_create)

theorem json_load_normalises_witness:
  "AnyparserLoader.format (test_pdf_loader Json) = Json \<and>
   return_value (List test_results) (length ([] :: calls))
     (AnyparserLoader.file_path (test_pdf_loader Json)) = Returns (List test_results) \<and>
   fst (aload (test_pdf_loader Json) (return_value (List test_results)) []) =
     Inr (concat (map (create_document_from_result (test_pdf_loader Json)) test_results)) \<and>
   length (concat (map (create_document_from_result (test_pdf_loader Json)) test_results)) = 5 \<and>
   get_event_loop (CurrentLoop Idle) = Inr Idle \<and>
   fst (load (test_pdf_loader Json) (CurrentLoop Idle) (return_value (Str ''not a list'')) []) =
     Inl (ValueError
       ''Error parsing document with Anyparser: Expected list for JSON format, got: <class 'str'>'')"
  using json_load_normalises [of "test_pdf_loader Json" "return_value (List test_results)" "[]"
      "List test_results" "CurrentLoop Idle"]
    json_load_normalises [of "test_pdf_loader Json" "return_value (Str ''not a list'')" "[]"
      "Str ''not a list''" "CurrentLoop Idle"]
  by (simp add: get_event_loop_def test_pdf_loader_def return_value_def test_results_def
        test_pdf_result_def test_crawl_result_def
        mock_anyparser_pdf_result_def mock_anyparser_crawl_result_def)

text \<open>
  C2. A load with format markdown or html. When the backend returned a string, the
  call returns exactly one record, whose content is that string and whose metadata is
  exactly \<open>source\<close>, the loader's target, and \<open>format\<close>, the loader's format. When it
  returned anything else, the call fails with the \<open>ValueError\<close> that names the
  expected type (a string, for the format) and the type observed. \<open>load\<close> gives the
  same when the thread's event loop is idle, so that the loop runs the coroutine.
\<close>

theorem text_load_normalises:
  assumes "AnyparserLoader.format self = Markdown \<or> AnyparserLoader.format self = Html"
    and "parse (length calls) (AnyparserLoader.file_path self) = Returns result"
  shows "(\<forall>s. result = Str s \<longrightarrow>
            fst (aload self parse calls) =
              Inr [\<lparr>page_content = Some s,
                    metadata = [(''source'', of_optional_str (AnyparserLoader.file_path self)),
                                (''format'', PyStr (format_str (AnyparserLoader.format self)))]\<rparr>] \<and>
            (get_event_loop env = Inr Idle \<longrightarrow>
               fst (load self env parse calls) = fst (aload self parse calls))) \<and>
         ((\<forall>s. result \<noteq> Str s) \<longrightarrow>
            fst (aload self parse calls) =
              Inl (ValueError (''Error parsing document with Anyparser: '' @
                     ''Expected string for '' @ format_str (AnyparserLoader.format self) @
                     '' format, got: '' @ type_repr result)) \<and>
            (get_event_loop env = Inr Idle \<longrightarrow>
               fst (load self env parse calls) = fst (aload self parse calls)))"
proof -
  have "fst (aload self parse calls) = except_handler (try_body self (Returns result))"
    using assms(2) by (simp add: fst_aload)
  then show ?thesis
    using assms(1) try_body_text_str [of self] try_body_text_other [of self result]
    by (simp add: load_idle except_handler_def)
qed

theorem text_load_normalises_witness:
  "(AnyparserLoader.format (test_pdf_loader Markdown) = Markdown \<or>
    AnyparserLoader.format (test_pdf_loader Markdown) = Html) \<and>
   return_value (Str ''hello'') (length ([] :: calls))
     (AnyparserLoader.file_path (test_pdf_loader Markdown)) = Returns (Str ''hello'') \<and>
   fst (aload (test_pdf_loader Markdown) (return_value (Str ''hello'')) []) =
     Inr [\<lparr>page_content = Some ''hello'',
           metadata = [(''source'', PyStr ''test.pdf''), (''format'', PyStr ''markdown'')]\<rparr>] \<and>
   get_event_loop (CurrentLoop Idle) = Inr Idle \<and>
   fst (load (test_pdf_loader Markdown) (CurrentLoop Idle) (return_value (Str ''hello'')) []) =
     Inr [\<lparr>page_content = Some ''hello'',
           metadata = [(''source'', PyStr ''test.pdf''), (''format'', PyStr ''markdown'')]\<rparr>] \<and>
   fst (aload (test_pdf_loader Html) (return_value (List [])) []) =
     Inl (ValueError
       ''Error parsing document with Anyparser: Expected string for html format, got: <class 'list'>'')"
  using text_load_normalises [of "test_pdf_loader Markdown" "return_value (Str ''hello'')" "[]"
      "Str ''hello''" "CurrentLoop Idle"]
    text_load_normalises [of "test_pdf_loader Html" "return_value (List [])" "[]" "List []"
      "CurrentLoop Idle"]
  by (simp add: get_event_loop_def test_pdf_loader_def return_value_def of_optional_str_def)

text \<open>
  C3. The content of every record made from a result item (a base result, a PDF page, a
  crawl page) follows the fallback chain: the markdown when it is non-empty, otherwise
  the text when it is present, otherwise the empty string; it is never \<open>None\<close>. The same
  holds of the records a load with format json returns.
\<close>

theorem content_fallback_chain:
  "map page_content (create_document_from_result self item) = map Some (expected_contents item) \<and>
   None \<notin> set (map page_content (create_document_from_result self item)) \<and>
   (AnyparserLoader.format self = Json \<longrightarrow>
    parse (length calls) (AnyparserLoader.file_path self) = Returns (List xs) \<longrightarrow>
      (\<exists>docs. fst (aload self parse calls) = Inr docs \<and>
         map page_content docs = map Some (concat (map expected_contents xs))))"
proof -
  have one: "map page_content (create_document_from_result self item) =
      map Some (expected_contents item)" for item
    by (rule contents_create)
  have "map page_content (concat (map (create_document_from_result self) xs)) =
      map Some (concat (map expected_contents xs))"
    by (induction xs) (simp_all add: one)
  then have "AnyparserLoader.format self = Json \<longrightarrow>
    parse (length calls) (AnyparserLoader.file_path self) = Returns (List xs) \<longrightarrow>
      (\<exists>docs. fst (aload self parse calls) = Inr docs \<and>
         map page_content docs = map Some (concat (map expected_contents xs)))"
    by (simp add: fst_aload try_body_json_list except_handler_def)
  moreover have "None \<notin> set (map page_content (create_document_from_result self item))"
    unfolding one by auto
  ultimately show ?thesis using one by blast
qed

theorem content_fallback_chain_witness:
  "AnyparserLoader.format (test_pdf_loader Json) = Json \<and>
   return_value (List test_results) (length ([] :: calls))
     (AnyparserLoader.file_path (test_pdf_loader Json)) = Returns (List test_results) \<and>
   map page_content (create_document_from_result (test_pdf_loader Json) (Pdf test_pdf_result)) =
     [Some ''pdf page content'', Some ''''] \<and>
   (\<exists>docs. fst (aload (test_pdf_loader Json) (return_value (List test_results)) []) = Inr docs \<and>
      map page_content docs =
        [Some ''base content'', Some ''pdf page content'', Some '''',
         Some ''page 1 content'', Some ''page 2 content''])"
  using content_fallback_chain [of "test_pdf_loader Json" "Pdf test_pdf_result"
      "return_value (List test_results)" "[]" test_results]
  by (simp add: test_pdf_loader_def return_value_def test_results_def
        test_pdf_result_def test_crawl_result_def
        mock_anyparser_pdf_result_def mock_anyparser_crawl_result_def
        mock_anyparser_base_result_def mock_anyparser_pdf_page_result_def
        mock_anyparser_url_result_def fallback_def text_or_empty_def)

text \<open>
  C4. The \<open>source\<close> metadata of every record of a crawl result is the URL of its own
  page, and so is its \<open>url\<close> metadata; the loader's target plays no part. The \<open>source\<close>
  metadata of every record of a PDF result, and of the record of a base result, is the
  loader's target.
\<close>

theorem source_metadata:
  "map (\<lambda>d. map_of (metadata d) ''source'') (create_document_from_result self (Crawl c)) =
     map (\<lambda>u. Some (AnyparserUrl.url u)) (AnyparserCrawlResult.items c) \<and>
   map (\<lambda>d. map_of (metadata d) ''url'') (create_document_from_result self (Crawl c)) =
     map (\<lambda>u. Some (AnyparserUrl.url u)) (AnyparserCrawlResult.items c) \<and>
   map (\<lambda>d. map_of (metadata d) ''source'') (create_document_from_result self (Pdf p)) =
     replicate (length (AnyparserPdfResult.items p))
       (Some (of_optional_str (AnyparserLoader.file_path self))) \<and>
   map (\<lambda>d. map_of (metadata d) ''source'') (create_document_from_result self (Base b)) =
     [Some (of_optional_str (AnyparserLoader.file_path self))]"
proof -
  let ?ks = "[1..int (length (AnyparserCrawlResult.items c))]"
  have len: "length ?ks = length (AnyparserCrawlResult.items c)"
    by simp
  have c1: "map (\<lambda>d. map_of (metadata d) ''source'') (create_document_from_result self (Crawl c)) =
     map (\<lambda>u. Some (AnyparserUrl.url u)) (AnyparserCrawlResult.items c)"
    using map_zip_snd [OF len, of "\<lambda>u. Some (AnyparserUrl.url u)"]
    by (simp add: crawl_lookup_page meta_url)
  have c2: "map (\<lambda>d. map_of (metadata d) ''url'') (create_document_from_result self (Crawl c)) =
     map (\<lambda>u. Some (AnyparserUrl.url u)) (AnyparserCrawlResult.items c)"
    using map_zip_snd [OF len, of "\<lambda>u. Some (AnyparserUrl.url u)"]
    by (simp add: crawl_lookup_page meta_url)
  have p1: "map (\<lambda>d. map_of (metadata d) ''source'') (create_document_from_result self (Pdf p)) =
     replicate (length (AnyparserPdfResult.items p))
       (Some (of_optional_str (AnyparserLoader.file_path self)))"
    by (simp add: pdf_lookup_page meta_pdf_page map_replicate_const)
  have b1: "map (\<lambda>d. map_of (metadata d) ''source'') (create_document_from_result self (Base b)) =
     [Some (of_optional_str (AnyparserLoader.file_path self))]"
    by (simp add: create_base meta_base)
  from c1 c2 p1 b1 show ?thesis by blast
qed

theorem source_metadata_witness:
  "AnyparserLoader.file_path test_crawler_loader = Some ''http://example.com'' \<and>
   map (\<lambda>d. map_of (metadata d) ''source'')
     (create_document_from_result test_crawler_loader (Crawl test_crawl_result)) =
     [Some (PyStr ''http://example.com/page1''), Some (PyStr ''http://example.com/page2'')] \<and>
   map (\<lambda>d. map_of (metadata d) ''source'')
     (create_document_from_result test_crawler_loader (Pdf test_pdf_result)) =
     [Some (PyStr ''http://example.com''), Some (PyStr ''http://example.com'')]"
  using source_metadata [of test_crawler_loader test_crawl_result test_pdf_result
      mock_anyparser_base_result]
  by (simp add: test_crawler_loader_def test_crawl_result_def test_pdf_result_def
        mock_anyparser_crawl_result_def mock_anyparser_pdf_result_def
        mock_anyparser_url_result_def of_optional_str_def)

text \<open>
  C5. For a PDF or crawl result of N pages, every record carries \<open>total_pages\<close> N. The
  \<open>page_number\<close> values of the crawl records are 1, ..., N in input order; the
  \<open>page_number\<close> of a PDF record is the page's own \<open>page_number\<close> attribute, whatever
  the position of the page.
\<close>

theorem page_numbering:
  "map (\<lambda>d. map_of (metadata d) ''total_pages'') (create_document_from_result self (Crawl c)) =
     replicate (length (AnyparserCrawlResult.items c))
       (Some (PyInt (int (length (AnyparserCrawlResult.items c))))) \<and>
   map (\<lambda>d. map_of (metadata d) ''page_number'') (create_document_from_result self (Crawl c)) =
     map (\<lambda>k. Some (PyInt k)) [1..int (length (AnyparserCrawlResult.items c))] \<and>
   map (\<lambda>d. map_of (metadata d) ''total_pages'') (create_document_from_result self (Pdf p)) =
     replicate (length (AnyparserPdfResult.items p))
       (Some (PyInt (int (length (AnyparserPdfResult.items p))))) \<and>
   map (\<lambda>d. map_of (metadata d) ''page_number'') (create_document_from_result self (Pdf p)) =
     map (\<lambda>pg. Some (AnyparserPdfPage.page_number pg)) (AnyparserPdfResult.items p)"
proof -
  let ?ks = "[1..int (length (AnyparserCrawlResult.items c))]"
  let ?n = "int (length (AnyparserCrawlResult.items c))"
  have len: "length ?ks = length (AnyparserCrawlResult.items c)"
    by simp
  have "map (\<lambda>d. map_of (metadata d) ''total_pages'') (create_document_from_result self (Crawl c)) =
     map (\<lambda>u. Some (PyInt ?n)) (AnyparserCrawlResult.items c)"
    using map_zip_snd [OF len, of "\<lambda>u. Some (PyInt ?n)"]
    by (simp add: crawl_lookup_page meta_url)
  then have c1: "map (\<lambda>d. map_of (metadata d) ''total_pages'')
       (create_document_from_result self (Crawl c)) =
     replicate (length (AnyparserCrawlResult.items c)) (Some (PyInt ?n))"
    by (simp add: map_replicate_const)
  have c2: "map (\<lambda>d. map_of (metadata d) ''page_number'')
       (create_document_from_result self (Crawl c)) = map (\<lambda>k. Some (PyInt k)) ?ks"
    using map_zip_fst [OF len, of "\<lambda>k. Some (PyInt k)"]
    by (simp add: crawl_lookup_page meta_url)
  have p1: "map (\<lambda>d. map_of (metadata d) ''total_pages'') (create_document_from_result self (Pdf p)) =
     replicate (length (AnyparserPdfResult.items p))
       (Some (PyInt (int (length (AnyparserPdfResult.items p)))))"
    by (simp add: pdf_lookup_page meta_pdf_page map_replicate_const)
  have p2: "map (\<lambda>d. map_of (metadata d) ''page_number'') (create_document_from_result self (Pdf p)) =
     map (\<lambda>pg. Some (AnyparserPdfPage.page_number pg)) (AnyparserPdfResult.items p)"
    by (simp add: pdf_lookup_page meta_pdf_page)
  from c1 c2 p1 p2 show ?thesis by blast
qed

theorem page_numbering_witness:
  "map (\<lambda>d. map_of (metadata d) ''page_number'')
     (create_document_from_result test_crawler_loader (Crawl test_crawl_result)) =
     [Some (PyInt 1), Some (PyInt 2)] \<and>
   map (\<lambda>d. map_of (metadata d) ''total_pages'')
     (create_document_from_result test_crawler_loader (Crawl test_crawl_result)) =
     [Some (PyInt 2), Some (PyInt 2)] \<and>
   map (\<lambda>d. map_of (metadata d) ''page_number'')
     (create_document_from_result (test_pdf_loader Json) (Pdf test_pdf_result)) =
     [Some (PyInt 7), Some (PyInt 3)] \<and>
   map (\<lambda>d. map_of (metadata d) ''total_pages'')
     (create_document_from_result (test_pdf_loader Json) (Pdf test_pdf_result)) =
     [Some (PyInt 2), Some (PyInt 2)]"
  using page_numbering [of test_crawler_loader test_crawl_result]
    page_numbering [of "test_pdf_loader Json" _ test_pdf_result]
  by (simp add: test_crawl_result_def test_pdf_result_def
        mock_anyparser_crawl_result_def mock_anyparser_pdf_result_def
        mock_anyparser_pdf_page_result_def numeral_2_eq_2 upto_rec1)

text \<open>
  C6. When the backend's \<open>parse\<close> raises, the call fails with one \<open>ValueError\<close> whose
  message is \<open>Error parsing document with Anyparser: \<close> followed by the description of
  the failure. Whatever \<open>parse\<close> does, a call of \<open>aload\<close> invokes it exactly once, with
  the loader's target: a failure is not retried. The same holds of a call of \<open>load\<close>
  whose event loop is idle, which are the calls of \<open>load\<close> that reach the backend.
\<close>

theorem backend_failure_wrapped:
  "snd (aload self parse calls) = calls @ [AnyparserLoader.file_path self] \<and>
   (get_event_loop env = Inr Idle \<longrightarrow>
      snd (load self env parse calls) = calls @ [AnyparserLoader.file_path self]) \<and>
   (parse (length calls) (AnyparserLoader.file_path self) = Raises msg \<longrightarrow>
      fst (aload self parse calls) =
        Inl (ValueError (''Error parsing document with Anyparser: '' @ msg)) \<and>
      (get_event_loop env = Inr Idle \<longrightarrow>
         fst (load self env parse calls) =
           Inl (ValueError (''Error parsing document with Anyparser: '' @ msg))))"
  by (simp add: load_idle snd_aload fst_aload try_body_def except_handler_def)

theorem backend_failure_wrapped_witness:
  "fails_first ''boom'' (Str ''ok'') (length ([] :: calls))
     (AnyparserLoader.file_path (test_pdf_loader Markdown)) = Raises ''boom'' \<and>
   get_event_loop (CurrentLoop Idle) = Inr Idle \<and>
   aload (test_pdf_loader Markdown) (fails_first ''boom'' (Str ''ok'')) [] =
     (Inl (ValueError ''Error parsing document with Anyparser: boom''), [Some ''test.pdf'']) \<and>
   load (test_pdf_loader Markdown) (CurrentLoop Idle) (side_effect ''Parser error'') [] =
     (Inl (ValueError ''Error parsing document with Anyparser: Parser error''),
      [Some ''test.pdf''])"
  using backend_failure_wrapped [of "test_pdf_loader Markdown" "fails_first ''boom'' (Str ''ok'')"
      "[]" "CurrentLoop Idle" "''boom''"]
    backend_failure_wrapped [of "test_pdf_loader Markdown" "side_effect ''Parser error''"
      "[]" "CurrentLoop Idle" "''Parser error''"]
  by (simp add: prod_eq_iff get_event_loop_def fails_first_def side_effect_def
        test_pdf_loader_def)

text \<open>
  C7. Constructing a loader with neither \<open>file_path\<close> nor \<open>url\<close> raises the
  \<open>ValueError\<close> \<open>Either file_path or url must be provided\<close>; constructing it with both
  raises \<open>Only one of file_path or url should be provided\<close>. Either way the script that
  constructs and then loads ends with that error and the backend has not been called.
\<close>

theorem init_rejects_bad_targets:
  "(loader_args.file_path a = None \<and> loader_args.url a = None \<longrightarrow>
      init a = Inl (ValueError ''Either file_path or url must be provided'') \<and>
      construct_and_load a parse calls =
        (Inl (ValueError ''Either file_path or url must be provided''), calls)) \<and>
   (loader_args.file_path a \<noteq> None \<and> loader_args.url a \<noteq> None \<longrightarrow>
      init a = Inl (ValueError ''Only one of file_path or url should be provided'') \<and>
      construct_and_load a parse calls =
        (Inl (ValueError ''Only one of file_path or url should be provided''), calls))"
  by (auto simp add: init_def construct_and_load_def)

theorem init_rejects_bad_targets_witness:
  "loader_args.file_path default_args = None \<and> loader_args.url default_args = None \<and>
   init default_args = Inl (ValueError ''Either file_path or url must be provided'') \<and>
   construct_and_load default_args (return_value (Str ''unused'')) [] =
     (Inl (ValueError ''Either file_path or url must be provided''), []) \<and>
   init (default_args\<lparr>loader_args.file_path := Some ''test.pdf'',
                       loader_args.url := Some ''http://example.com''\<rparr>) =
     Inl (ValueError ''Only one of file_path or url should be provided'') \<and>
   construct_and_load (default_args\<lparr>loader_args.file_path := Some ''test.pdf'',
                       loader_args.url := Some ''http://example.com''\<rparr>)
       (return_value (Str ''unused'')) [] =
     (Inl (ValueError ''Only one of file_path or url should be provided''), [])"
  using init_rejects_bad_targets [of default_args "return_value (Str ''unused'')" "[]"]
    init_rejects_bad_targets [of "default_args\<lparr>loader_args.file_path := Some ''test.pdf'',
                       loader_args.url := Some ''http://example.com''\<rparr>"
      "return_value (Str ''unused'')" "[]"]
  by (simp add: default_args_def)

text \<open>
  C8. The claim is that a loader whose construction succeeds has a target that is the
  supplied file path or URL, never \<open>None\<close>, whatever the model. The code keeps the URL
  only when the model is \<open>crawler\<close> and the file path only otherwise:
  \<open>AnyparserLoader(url="http://example.com")\<close>, with the default model \<open>text\<close>, is
  constructed with \<open>file_path = None\<close>, and \<open>parse\<close> is then called with \<open>None\<close>; so is
  \<open>AnyparserLoader(file_path="test.pdf", model="crawler")\<close>.
\<close>

theorem init_target_none_on_model_mismatch:
  "init (default_args\<lparr>loader_args.url := Some ''http://example.com''\<rparr>) =
     Inr \<lparr>AnyparserLoader.file_path = None, AnyparserLoader.format = Markdown,
          AnyparserLoader.model = Text,
          options = test_options Markdown Text (Some ''http://example.com'')\<rparr> \<and>
   snd (construct_and_load (default_args\<lparr>loader_args.url := Some ''http://example.com''\<rparr>)
          (return_value (Str ''content'')) []) = [None] \<and>
   init (default_args\<lparr>loader_args.file_path := Some ''test.pdf'',
                       loader_args.model := Crawler\<rparr>) =
     Inr \<lparr>AnyparserLoader.file_path = None, AnyparserLoader.format = Markdown,
          AnyparserLoader.model = Crawler, options = test_options Markdown Crawler None\<rparr>"
  by (simp add: init_def default_args_def test_options_def construct_and_load_def snd_aload)

text \<open>
  C9. The claim is that \<open>load\<close> returns what \<open>aload\<close> returns, and fails as it fails,
  for every configuration and backend outcome. It does not when the event loop of the
  calling thread is already running: \<open>run_until_complete\<close> then raises a \<open>RuntimeError\<close>
  and the backend is never called, where \<open>aload\<close> returns the record.
\<close>

theorem load_same_as_aload_counterexample:
  "load (test_pdf_loader Markdown) (CurrentLoop Running) (return_value (Str ''hello'')) [] =
     (Inl (RuntimeError ''This event loop is already running''), []) \<and>
   aload (test_pdf_loader Markdown) (return_value (Str ''hello'')) [] =
     (Inr [\<lparr>page_content = Some ''hello'',
            metadata = [(''source'', PyStr ''test.pdf''), (''format'', PyStr ''markdown'')]\<rparr>],
      [Some ''test.pdf'']) \<and>
   load (test_pdf_loader Markdown) (CurrentLoop Running) (return_value (Str ''hello'')) [] \<noteq>
     aload (test_pdf_loader Markdown) (return_value (Str ''hello'')) []"
  by (simp add: load_def get_event_loop_def run_until_complete_def aload_def try_body_def
        except_handler_def return_value_def test_pdf_loader_def of_optional_str_def)

text \<open>
  C9, as amended. When the calling thread has a current event loop that is idle (open
  and not running), \<open>load\<close> is the coroutine of \<open>aload\<close> run to completion: for every
  loader, backend and call log it returns the same records, or fails with the same
  error, and makes the same call of the backend. In every other state of the event
  loop \<open>load\<close> raises a \<open>RuntimeError\<close> and the backend is not called.
\<close>

theorem load_same_as_aload:
  "(get_event_loop env = Inr Idle \<longrightarrow> load self env parse calls = aload self parse calls) \<and>
   (get_event_loop env \<noteq> Inr Idle \<longrightarrow>
      (\<exists>m. load self env parse calls = (Inl (RuntimeError m), calls)))"
  using load_idle [of env self parse calls] load_refused [of env self parse calls]
  by blast

theorem load_same_as_aload_witness:
  "get_event_loop (CurrentLoop Idle) = Inr Idle \<and>
   load (test_pdf_loader Markdown) (CurrentLoop Idle) (return_value (Str ''hello'')) [] =
     aload (test_pdf_loader Markdown) (return_value (Str ''hello'')) [] \<and>
   load (test_pdf_loader Markdown) (CurrentLoop Idle) (fails_first ''boom'' (Str ''ok'')) [] =
     aload (test_pdf_loader Markdown) (fails_first ''boom'' (Str ''ok'')) [] \<and>
   get_event_loop (NoCurrentLoop ''MainThread'') \<noteq> Inr Idle \<and>
   (\<exists>m. load (test_pdf_loader Markdown) (NoCurrentLoop ''MainThread'')
          (return_value (Str ''hello'')) [] = (Inl (RuntimeError m), []))"
  using load_same_as_aload [of "CurrentLoop Idle" "test_pdf_loader Markdown"
      "return_value (Str ''hello'')" "[]"]
    load_same_as_aload [of "CurrentLoop Idle" "test_pdf_loader Markdown"
      "fails_first ''boom'' (Str ''ok'')" "[]"]
    load_same_as_aload [of "NoCurrentLoop ''MainThread''" "test_pdf_loader Markdown"
      "return_value (Str ''hello'')" "[]"]
  by (simp add: get_event_loop_def)

text \<open>
  C10. The claim is that every error of \<open>aload\<close> and of \<open>load\<close> carries the prefix
  \<open>Error parsing document with Anyparser: \<close>. The two lines of \<open>load\<close> are outside the
  \<open>try\<close> block of \<open>aload\<close>: in a thread without a current event loop \<open>load\<close> fails with
  the \<open>RuntimeError\<close> of \<open>get_event_loop\<close>, which has no prefix.
\<close>

theorem every_load_error_prefixed_counterexample:
  "fst (load (test_pdf_loader Markdown) (NoCurrentLoop ''MainThread'')
          (return_value (Str ''hello'')) []) =
     Inl (RuntimeError ''There is no current event loop in thread 'MainThread'.'') \<and>
   \<not> (\<exists>m. fst (load (test_pdf_loader Markdown) (NoCurrentLoop ''MainThread'')
                 (return_value (Str ''hello'')) []) =
            Inl (ValueError (''Error parsing document with Anyparser: '' @ m)))"
  by (simp add: load_def get_event_loop_def)

text \<open>
  C10, as amended. Every error of \<open>aload\<close>, and every error of a \<open>load\<close> whose event
  loop is idle, is a \<open>ValueError\<close> whose message starts with
  \<open>Error parsing document with Anyparser: \<close>. The shape checks raise inside the \<open>try\<close>
  block, so the error of a shape mismatch reaches the caller wrapped once more: the
  message of the inner error follows the prefix. In every other state of the event
  loop \<open>load\<close> fails with a \<open>RuntimeError\<close> before the backend is called.
\<close>

theorem every_load_error_prefixed:
  "(fst (aload self parse calls) = Inl err \<longrightarrow>
      (\<exists>m. err = ValueError (''Error parsing document with Anyparser: '' @ m))) \<and>
   (get_event_loop env = Inr Idle \<longrightarrow> fst (load self env parse calls) = Inl err \<longrightarrow>
      (\<exists>m. err = ValueError (''Error parsing document with Anyparser: '' @ m))) \<and>
   (get_event_loop env \<noteq> Inr Idle \<longrightarrow>
      (\<exists>m. load self env parse calls = (Inl (RuntimeError m), calls))) \<and>
   (try_body self (parse (length calls) (AnyparserLoader.file_path self)) = Inl inner \<longrightarrow>
      fst (aload self parse calls) =
        Inl (ValueError (''Error parsing document with Anyparser: '' @ str inner))) \<and>
   (parse (length calls) (AnyparserLoader.file_path self) = Returns result \<longrightarrow>
    AnyparserLoader.format self \<noteq> Json \<longrightarrow> (\<forall>s. result \<noteq> Str s) \<longrightarrow>
      try_body self (Returns result) =
        Inl (ValueError (''Expected string for '' @ format_str (AnyparserLoader.format self) @
               '' format, got: '' @ type_repr result)) \<and>
      fst (aload self parse calls) =
        Inl (ValueError (''Error parsing document with Anyparser: '' @
               ''Expected string for '' @ format_str (AnyparserLoader.format self) @
               '' format, got: '' @ type_repr result))) \<and>
   (parse (length calls) (AnyparserLoader.file_path self) = Returns result \<longrightarrow>
    AnyparserLoader.format self = Json \<longrightarrow> (\<forall>xs. result \<noteq> List xs) \<longrightarrow>
      try_body self (Returns result) =
        Inl (ValueError (''Expected list for JSON format, got: '' @ type_repr result)) \<and>
      fst (aload self parse calls) =
        Inl (ValueError (''Error parsing document with Anyparser: '' @
               ''Expected list for JSON format, got: '' @ type_repr result)))"
proof -
  have fmt: "AnyparserLoader.format self \<noteq> Json \<Longrightarrow>
      AnyparserLoader.format self = Markdown \<or> AnyparserLoader.format self = Html"
    by (cases "AnyparserLoader.format self") simp_all
  have a: "fst (aload self parse calls) = Inl err \<longrightarrow>
      (\<exists>m. err = ValueError (''Error parsing document with Anyparser: '' @ m))"
    by (auto simp add: fst_aload except_handler_def split: sum.splits)
  have a': "get_event_loop env = Inr Idle \<longrightarrow> fst (load self env parse calls) = Inl err \<longrightarrow>
      (\<exists>m. err = ValueError (''Error parsing document with Anyparser: '' @ m))"
    using a by (simp add: load_idle)
  have r: "get_event_loop env \<noteq> Inr Idle \<longrightarrow>
      (\<exists>m. load self env parse calls = (Inl (RuntimeError m), calls))"
    using load_refused [of env self parse calls] by blast
  have b: "try_body self (parse (length calls) (AnyparserLoader.file_path self)) = Inl inner \<longrightarrow>
      fst (aload self parse calls) =
        Inl (ValueError (''Error parsing document with Anyparser: '' @ str inner))"
    by (simp add: fst_aload except_handler_def)
  have c: "parse (length calls) (AnyparserLoader.file_path self) = Returns result \<longrightarrow>
    AnyparserLoader.format self \<noteq> Json \<longrightarrow> (\<forall>s. result \<noteq> Str s) \<longrightarrow>
      try_body self (Returns result) =
        Inl (ValueError (''Expected string for '' @ format_str (AnyparserLoader.format self) @
               '' format, got: '' @ type_repr result)) \<and>
      fst (aload self parse calls) =
        Inl (ValueError (''Error parsing document with Anyparser: '' @
               ''Expected string for '' @ format_str (AnyparserLoader.format self) @
               '' format, got: '' @ type_repr result))"
    using try_body_text_other [of self result] fmt
    by (simp add: fst_aload except_handler_def)
  have d: "parse (length calls) (AnyparserLoader.file_path self) = Returns result \<longrightarrow>
    AnyparserLoader.format self = Json \<longrightarrow> (\<forall>xs. result \<noteq> List xs) \<longrightarrow>
      try_body self (Returns result) =
        Inl (ValueError (''Expected list for JSON format, got: '' @ type_repr result)) \<and>
      fst (aload self parse calls) =
        Inl (ValueError (''Error parsing document with Anyparser: '' @
               ''Expected list for JSON format, got: '' @ type_repr result))"
    using try_body_json_other [of self result]
    by (simp add: fst_aload except_handler_def)
  from a a' r b c d show ?thesis by blast
qed

theorem every_load_error_prefixed_witness:
  "return_value (List []) (length ([] :: calls))
     (AnyparserLoader.file_path (test_pdf_loader Markdown)) = Returns (List []) \<and>
   AnyparserLoader.format (test_pdf_loader Markdown) \<noteq> Json \<and>
   (\<forall>s. List [] \<noteq> Str s) \<and>
   get_event_loop (CurrentLoop Idle) = Inr Idle \<and>
   try_body (test_pdf_loader Markdown) (Returns (List [])) =
     Inl (ValueError ''Expected string for markdown format, got: <class 'list'>'') \<and>
   fst (aload (test_pdf_loader Markdown) (return_value (List [])) []) =
     Inl (ValueError
       ''Error parsing document with Anyparser: Expected string for markdown format, got: <class 'list'>'') \<and>
   fst (load (test_pdf_loader Markdown) (CurrentLoop Idle) (return_value (List [])) []) =
     Inl (ValueError
       ''Error parsing document with Anyparser: Expected string for markdown format, got: <class 'list'>'') \<and>
   (\<exists>m. ValueError
       ''Error parsing document with Anyparser: Expected string for markdown format, got: <class 'list'>'' =
     ValueError (''Error parsing document with Anyparser: '' @ m)) \<and>
   return_value (Str ''not a list'') (length ([] :: calls))
     (AnyparserLoader.file_path (test_pdf_loader Json)) = Returns (Str ''not a list'') \<and>
   AnyparserLoader.format (test_pdf_loader Json) = Json \<and>
   (\<forall>xs. Str ''not a list'' \<noteq> List xs) \<and>
   try_body (test_pdf_loader Json) (Returns (Str ''not a list'')) =
     Inl (ValueError ''Expected list for JSON format, got: <class 'str'>'') \<and>
   fst (aload (test_pdf_loader Json) (return_value (Str ''not a list'')) []) =
     Inl (ValueError
       ''Error parsing document with Anyparser: Expected list for JSON format, got: <class 'str'>'') \<and>
   get_event_loop (CurrentLoop Closed) \<noteq> Inr Idle \<and>
   (\<exists>m. load (test_pdf_loader Json) (CurrentLoop Closed) (return_value (Str ''not a list'')) [] =
      (Inl (RuntimeError m), []))"
  using every_load_error_prefixed [of "test_pdf_loader Markdown" "return_value (List [])" "[]"
      "ValueError ''Error parsing document with Anyparser: Expected string for markdown format, got: <class 'list'>''"
      "CurrentLoop Idle"
      "ValueError ''Expected string for markdown format, got: <class 'list'>''" "List []"]
    every_load_error_prefixed [of "test_pdf_loader Json" "return_value (Str ''not a list'')" "[]"
      "ValueError []" "CurrentLoop Closed" "ValueError []" "Str ''not a list''"]
  by (simp add: get_event_loop_def return_value_def test_pdf_loader_def load_idle)

end
